theory Spec2Isabelle
  imports Complex_Main
begin

section \<open>Strings\<close>

text \<open>
  A Python \<open>str\<close> is modelled as a \<open>string\<close>, whose characters are read as the code points
  0 to 255. The character tables below are Python's on that range. A Python \<open>float\<close> is
  modelled as an exact rational: no NaN, no infinity, no representation error.
\<close>

text \<open>\<open>str.isspace\<close> on one character, which is also the class \<open>\s\<close> of \<open>re\<close>.\<close>

definition isspace :: "char \<Rightarrow> bool" where
  "isspace c = (let n = (of_char c :: nat) in
     (9 \<le> n \<and> n \<le> 13) \<or> (28 \<le> n \<and> n \<le> 32) \<or> n = 133 \<or> n = 160)"

text \<open>The class \<open>\d\<close> of \<open>re\<close>: below 256 the decimal digits are \<open>0\<close> to \<open>9\<close>.\<close>

definition isdigit :: "char \<Rightarrow> bool" where
  "isdigit c = (let n = (of_char c :: nat) in 48 \<le> n \<and> n \<le> 57)"

text \<open>\<open>str.lower\<close>: \<open>A\<close> to \<open>Z\<close> and the accented capitals 192 to 222 (but not 215) move up by 32.\<close>

definition lower_char :: "char \<Rightarrow> char" where
  "lower_char c = (let n = (of_char c :: nat) in
     if (65 \<le> n \<and> n \<le> 90) \<or> (192 \<le> n \<and> n \<le> 222 \<and> n \<noteq> 215) then char_of (n + 32) else c)"

definition lower :: "string \<Rightarrow> string" where
  "lower s = map lower_char s"

text \<open>
  \<open>str.upper\<close>: \<open>a\<close> to \<open>z\<close> and the accented small letters 224 to 254 (but not 247) move down
  by 32, and the sharp s (223) becomes \<open>SS\<close>. The code points 181 and 255 have their capitals
  outside the range and are left as they are: they occur in no keyword that the program
  compares an upper-cased text with.
\<close>

definition upper_char :: "char \<Rightarrow> string" where
  "upper_char c = (let n = (of_char c :: nat) in
     if (97 \<le> n \<and> n \<le> 122) \<or> (224 \<le> n \<and> n \<le> 254 \<and> n \<noteq> 247) then [char_of (n - 32)]
     else if n = 223 then ''SS'' else [c])"

definition upper :: "string \<Rightarrow> string" where
  "upper s = concat (map upper_char s)"

text \<open>\<open>str.strip()\<close>.\<close>

definition strip :: "string \<Rightarrow> string" where
  "strip s = rev (dropWhile isspace (rev (dropWhile isspace s)))"

text \<open>\<open>s.startswith(p)\<close> and the operator \<open>p in s\<close> on strings.\<close>

fun startswith :: "string \<Rightarrow> string \<Rightarrow> bool" where
  "startswith s [] = True"
| "startswith [] (p # ps) = False"
| "startswith (c # cs) (p # ps) = (c = p \<and> startswith cs ps)"

fun str_in :: "string \<Rightarrow> string \<Rightarrow> bool" where
  "str_in p [] = (p = [])"
| "str_in p (c # cs) = (startswith (c # cs) p \<or> str_in p cs)"

text \<open>\<open>s.count(p)\<close> for a non-empty \<open>p\<close>: the occurrences that do not overlap, from the left.\<close>

function count_str :: "string \<Rightarrow> string \<Rightarrow> nat" where
  "count_str [] p = 0"
| "count_str (c # cs) p =
     (if p \<noteq> [] \<and> startswith (c # cs) p then Suc (count_str (drop (length p) (c # cs)) p)
      else count_str cs p)"
  by pat_completeness auto
termination
  by (relation "measure (\<lambda>(s, p). length s)") auto

text \<open>\<open>s.split()\<close>: the maximal runs of characters that are not white space.\<close>

fun split_ws :: "string \<Rightarrow> string \<Rightarrow> string list" where
  "split_ws cur [] = (if cur = [] then [] else [rev cur])"
| "split_ws cur (c # cs) =
     (if isspace c then (if cur = [] then split_ws [] cs else rev cur # split_ws [] cs)
      else split_ws (c # cur) cs)"

definition split :: "string \<Rightarrow> string list" where
  "split s = split_ws [] s"

text \<open>\<open>s.split(sep)\<close> for a separator of one character.\<close>

fun split_on :: "char \<Rightarrow> string \<Rightarrow> string list" where
  "split_on sep [] = [[]]"
| "split_on sep (c # cs) =
     (if c = sep then [] # split_on sep cs
      else (case split_on sep cs of [] \<Rightarrow> [[c]] | p # ps \<Rightarrow> (c # p) # ps))"

text \<open>\<open>int(s)\<close> on a string of decimal digits.\<close>

definition int_of_digits :: "string \<Rightarrow> nat" where
  "int_of_digits s = foldl (\<lambda>n c. 10 * n + (of_char c - 48)) 0 s"

text \<open>\<open>str(n)\<close> on a natural number.\<close>

fun str_nat :: "nat \<Rightarrow> string" where
  "str_nat n = (if n < 10 then [char_of (48 + n)]
                else str_nat (n div 10) @ [char_of (48 + n mod 10)])"

text \<open>The slice \<open>xs[start:]\<close>: a negative start counts from the end, and both ends clamp.\<close>

definition slice_from :: "int \<Rightarrow> 'a list \<Rightarrow> 'a list" where
  "slice_from start xs =
     (let n = int (length xs);
          i = (if start < 0 then max 0 (start + n) else min start n)
      in drop (nat i) xs)"

text \<open>\<open>round(x, 4)\<close>: to the nearest multiple of 1/10000, a tie going to the even one.\<close>

definition round4 :: "rat \<Rightarrow> rat" where
  "round4 x =
     (let y = x * 10000; f = \<lfloor>y\<rfloor>; d = y - of_int f
      in of_int (if d < 1 / 2 then f else if 1 / 2 < d then f + 1
                 else if even f then f else f + 1) / 10000)"


section \<open>Regular expressions\<close>

text \<open>
  The part of \<open>re\<close> that the two patterns of the program use, with the backtracking order
  of \<open>re\<close>: a greedy repetition tries the longest run first, a lazy one the shortest, an
  alternative its left branch first. A repetition is over one character class. The matcher
  passes the rest of the input and the groups closed so far to a continuation, and the
  first path on which the continuation succeeds is the match.
\<close>

datatype re =
    Str string
  | Plus "char \<Rightarrow> bool"
  | Star "char \<Rightarrow> bool"
  | Lazy "char \<Rightarrow> bool"
  | Cat re re
  | Alt re re
  | Opt re
  | Grp re

fun greedy_star :: "(char \<Rightarrow> bool) \<Rightarrow> string \<Rightarrow> (string \<Rightarrow> 'a option) \<Rightarrow> 'a option" where
  "greedy_star p [] k = k []"
| "greedy_star p (c # cs) k =
     (if p c then (case greedy_star p cs k of Some r \<Rightarrow> Some r | None \<Rightarrow> k (c # cs))
      else k (c # cs))"

fun lazy_star :: "(char \<Rightarrow> bool) \<Rightarrow> string \<Rightarrow> (string \<Rightarrow> 'a option) \<Rightarrow> 'a option" where
  "lazy_star p [] k = k []"
| "lazy_star p (c # cs) k =
     (case k (c # cs) of Some r \<Rightarrow> Some r
      | None \<Rightarrow> if p c then lazy_star p cs k else None)"

fun re_m :: "re \<Rightarrow> (string \<times> string list \<Rightarrow> 'a option) \<Rightarrow> string \<times> string list \<Rightarrow> 'a option" where
  "re_m (Str t) k (s, g) = (if startswith s t then k (drop (length t) s, g) else None)"
| "re_m (Plus p) k (s, g) =
     (case s of [] \<Rightarrow> None
      | c # cs \<Rightarrow> if p c then greedy_star p cs (\<lambda>r. k (r, g)) else None)"
| "re_m (Star p) k (s, g) = greedy_star p s (\<lambda>r. k (r, g))"
| "re_m (Lazy p) k (s, g) = lazy_star p s (\<lambda>r. k (r, g))"
| "re_m (Cat a b) k (s, g) = re_m a (re_m b k) (s, g)"
| "re_m (Alt a b) k (s, g) =
     (case re_m a k (s, g) of Some r \<Rightarrow> Some r | None \<Rightarrow> re_m b k (s, g))"
| "re_m (Opt a) k (s, g) =
     (case re_m a k (s, g) of Some r \<Rightarrow> Some r | None \<Rightarrow> k (s, g))"
| "re_m (Grp a) k (s, g) =
     re_m a (\<lambda>(r, g'). k (r, g' @ [take (length s - length r) s])) (s, g)"

fun cats :: "re list \<Rightarrow> re" where
  "cats [] = Str []"
| "cats [r] = r"
| "cats (r # rs) = Cat r (cats rs)"

text \<open>\<open>pattern.match(s)\<close> and \<open>re.search(pattern, s)\<close>: the groups of the match, or \<open>None\<close>.\<close>

definition re_match :: "re \<Rightarrow> string \<Rightarrow> string list option" where
  "re_match r s = re_m r (\<lambda>(rest, g). Some g) (s, [])"

fun re_search :: "re \<Rightarrow> string \<Rightarrow> string list option" where
  "re_search r [] = re_match r []"
| "re_search r (c # cs) =
     (case re_match r (c # cs) of Some g \<Rightarrow> Some g | None \<Rightarrow> re_search r cs)"

definition dot :: "char \<Rightarrow> bool" where
  "dot c = (c \<noteq> CHR 0x0A)"

definition nonspace :: "char \<Rightarrow> bool" where
  "nonspace c = (\<not> isspace c)"

section \<open>Parsers and feature extractors (models/preprocess.py, models/db_preprocess.py)\<close>

text \<open>
  \<open>LOG_PATTERN\<close>, the combined access-log format. The anchor \<open>^\<close> says nothing under
  \<open>match\<close>, which starts at the first character.
\<close>

definition LOG_PATTERN :: re where
  \<open>LOG_PATTERN = cats
     [Grp (Plus nonspace), Str '' '', Grp (Plus nonspace), Str '' '', Grp (Plus nonspace),
      Str '' ['', Grp (Lazy dot), Str ''] "'', Grp (Lazy dot), Str ''" '',
      Grp (Plus isdigit), Str '' '', Grp (Plus isdigit),
      Str '' "'', Grp (Lazy dot), Str ''" "'', Grp (Lazy dot), Str ''"'',
      Opt (Grp (Star dot))]\<close>

text \<open>
  The dictionary that \<open>parse_log_line\<close> returns; every key is always present. The key
  \<open>method\<close> is the field \<open>request_method\<close>. Group \<open>n\<close> of the match is \<open>groups ! (n - 1)\<close>;
  a match has at least nine groups (lemma \<open>LOG_PATTERN_groups\<close>).
\<close>

record parsed =
  ip :: string
  timestamp :: string
  request_method :: string
  url :: string
  status :: nat
  bytes :: nat
  referer :: string
  user_agent :: string

definition parse_log_line :: "string \<Rightarrow> parsed option" where
  "parse_log_line line =
     (case re_match LOG_PATTERN line of
        None \<Rightarrow> None
      | Some groups \<Rightarrow>
          (let request = groups ! 4;
               (method, url) =
                 (if 2 \<le> length (split request) then (split request ! 0, split request ! 1)
                  else (''UNKNOWN'', request))
           in Some \<lparr>ip = groups ! 0, timestamp = groups ! 3, request_method = method, url = url,
                    status = int_of_digits (groups ! 5), bytes = int_of_digits (groups ! 6),
                    referer = groups ! 7, user_agent = groups ! 8\<rparr>))"

text \<open>
  \<open>extract_features\<close> on the one-row frame of a parsed record: the row of the six numeric
  columns. The line it prints is added by the caller below.
\<close>

definition count_specials :: "string \<Rightarrow> nat" where
  \<open>count_specials text = sum_list (map (\<lambda>char. count_str text char)
     [''%'', [CHR 0x27], ''"'', ''<'', ''>'', ''='', '';'', ''('', '')''])\<close>

definition extract_features :: "parsed \<Rightarrow> nat list" where
  "extract_features df =
     [length (url df), count_specials (url df),
      (if 400 \<le> status df then 1 else 0),
      (if upper (request_method df) = ''POST'' then 1 else 0),
      length (user_agent df), bytes df]"

text \<open>
  The pattern of \<open>parse_db_log\<close>: \<open>\s+(Query|Execute)\s+(.*)\<close>, used with \<open>search\<close>; a match
  has two groups (lemma \<open>DB_PATTERN_groups\<close>).
\<close>

definition DB_PATTERN :: re where
  "DB_PATTERN = cats
     [Plus isspace, Grp (Alt (Str ''Query'') (Str ''Execute'')), Plus isspace, Grp (Star dot)]"

definition parse_db_log :: "string \<Rightarrow> string" where
  "parse_db_log line0 =
     (let line = strip line0 in
      case re_search DB_PATTERN line of
        Some groups \<Rightarrow> strip (groups ! 1)
      | None \<Rightarrow> line)"

definition extract_sql_features :: "string \<Rightarrow> nat list" where
  \<open>extract_sql_features query =
     [length query,
      sum_list (map (\<lambda>k. count_str (upper query) k)
        [''SELECT'', ''UNION'', ''INSERT'', ''UPDATE'', ''DELETE'', ''DROP'', ''FROM'', ''WHERE'']),
      sum_list (map (\<lambda>c. count_str query c)
        [[CHR 0x27], ''"'', ''-'', ''#'', '';'', ''='', ''('', '')'', ''*'']),
      sum_list (map (\<lambda>k. count_str (upper query) k) ['' OR '', '' AND '', ''1=1'', ''1=0'']),
      (if str_in ''--'' query \<or> str_in ''#'' query then 1 else 0)]\<close>


section \<open>The classifier artifact\<close>

text \<open>
  The unpickled model is opaque: what the program sees of it is what its three methods
  return or raise on a feature row. An artifact that lacks a method raises
  \<open>AttributeError\<close> there. \<open>predict\<close> and \<open>decision_function\<close> stand for the first entry of
  the array returned, as the program reads it.
\<close>

datatype exc = AttributeError | TypeError | OtherException

datatype 'a outcome = Raises exc | Returns 'a

record classifier =
  predict :: "nat list \<Rightarrow> int outcome"
  decision_function :: "nat list \<Rightarrow> rat outcome"
  predict_proba :: "nat list \<Rightarrow> rat list list option outcome"

text \<open>\<open>max\<close> of a non-empty sequence.\<close>

definition max_list :: "rat list \<Rightarrow> rat" where
  "max_list xs = foldl max (hd xs) (tl xs)"

text \<open>
  The confidence of a classifier verdict (the same block in each of the three analysers):
  the absolute decision score; when that raises \<open>AttributeError\<close> or \<open>TypeError\<close>, the
  largest class probability of the first row; when that fails in any way, or there are no
  probabilities, one half. Another exception of \<open>decision_function\<close> leaves the block.
\<close>

definition ml_confidence :: "classifier \<Rightarrow> nat list \<Rightarrow> rat outcome" where
  "ml_confidence model features =
     (case decision_function model features of
        Returns d \<Rightarrow> Returns \<bar>d\<bar>
      | Raises e \<Rightarrow>
          if e = AttributeError \<or> e = TypeError then
            (case predict_proba model features of
               Raises e' \<Rightarrow> Returns (1 / 2)
             | Returns None \<Rightarrow> Returns (1 / 2)
             | Returns (Some proba) \<Rightarrow>
                 (case proba of
                    [] \<Rightarrow> Returns (1 / 2)
                  | row # rows \<Rightarrow> if row = [] then Returns (1 / 2) else Returns (max_list row)))
          else Raises e)"


section \<open>The IDS manager (cms/ids_manager.py)\<close>

record alert =
  alert_id :: nat
  alert_timestamp :: string
  alert_type :: string
  severity :: string
  source_ip :: string
  attack_type :: string
  payload :: string
  alert_user_agent :: string
  confidence :: rat
  alert_status :: string

text \<open>What the program prints: the line of \<open>extract_features\<close> and the caught errors.\<close>

datatype printed_line = Extracting_features | Error_analyzing string exc | Error_saving_alerts

text \<open>
  The manager: the three artifacts (\<open>None\<close> when the file is missing or fails to load), the
  alert list with its bound, what has been printed, and the file \<open>alerts.json\<close> with whether
  it can be written.
\<close>

record ids_manager =
  web_model :: "classifier option"
  db_model :: "classifier option"
  email_model :: "classifier option"
  alerts :: "alert list"
  max_alerts :: nat
  printed :: "printed_line list"
  alerts_file :: "alert list option"
  alerts_file_writable :: bool

text \<open>\<open>IDSManager.__init__\<close>, given what \<open>_load_model\<close> returned for the three artifacts.\<close>

definition init :: "classifier option \<Rightarrow> classifier option \<Rightarrow> classifier option \<Rightarrow> ids_manager" where
  "init web db email =
     \<lparr>web_model = web, db_model = db, email_model = email, alerts = [], max_alerts = 100,
      printed = [], alerts_file = None, alerts_file_writable = True\<rparr>"

definition print :: "printed_line \<Rightarrow> ids_manager \<Rightarrow> ids_manager" where
  "print line self = self\<lparr>printed := printed self @ [line]\<rparr>"

text \<open>\<open>_create_alert\<close>; \<open>now\<close> is what \<open>datetime.now().isoformat()\<close> returns in this call.\<close>

definition create_alert ::
  "string \<Rightarrow> ids_manager \<Rightarrow> string \<Rightarrow> string \<Rightarrow> string \<Rightarrow> string \<Rightarrow> string \<Rightarrow> string \<Rightarrow> rat
   \<Rightarrow> ids_manager \<times> alert" where
  "create_alert now self alert_type' severity' attack_type' payload' source_ip' user_agent'
     confidence' =
     (let alert = \<lparr>alert_id = length (alerts self) + 1, alert_timestamp = now,
                   alert_type = alert_type', severity = severity', source_ip = source_ip',
                   attack_type = attack_type', payload = payload',
                   alert_user_agent = user_agent', confidence = round4 confidence',
                   alert_status = ''active''\<rparr>;
          appended = alerts self @ [alert]
      in (self\<lparr>alerts := (if max_alerts self < length appended then tl appended else appended)\<rparr>,
          alert))"

text \<open>
  The signature rules of \<open>analyze_web_log\<close>: the flag and the reason they leave. The three
  lists are the literal lists of the source.
\<close>

definition admin_patterns :: "string list" where
  "admin_patterns =
     [''admin'', ''cmd='', ''whoami'', ''shell'', ''exec'', ''system'', ''config'', ''test'',
      ''debug'', ''api/admin'']"

definition web_sql_patterns :: "string list" where
  "web_sql_patterns =
     [''' or '' @ [CHR 0x27], ''or 1=1'', ''or+1=1'', ''%20or%20'', ''union select'',
      ''union+select'', ''exec('', ''drop '', ''drop+'', ''insert '', ''insert+'', ''update '',
      ''update+'']"

definition attack_tools :: "string list" where
  "attack_tools =
     [''sqlmap'', ''curl'', ''wget'', ''nikto'', ''nmap'', ''burp'', ''sqlmap'', ''havij'']"

definition web_signature :: "parsed \<Rightarrow> bool \<times> string" where
  "web_signature parsed =
     (let url = lower (url parsed);
          (manual_alert, attack_reason) =
            (if list_ex (\<lambda>pattern. str_in pattern url) admin_patterns
             then (True, ''Admin/command access detected'')
             else if str_in ''..'' url \<or> str_in ''%2e%2e'' url \<or> str_in ''..%2f'' url
                     \<or> str_in ''%252e%252e'' url
             then (True, ''Path traversal attempt'')
             else if str_in ''<script'' url \<or> str_in ''javascript:'' url
                     \<or> str_in ''%3cscript'' url \<or> str_in ''<iframe'' url
             then (True, ''Script injection attempt'')
             else if list_ex (\<lambda>pattern. str_in pattern url) web_sql_patterns
             then (True, ''SQL injection pattern detected'')
             else (False, ''''));
          user_agent = lower (user_agent parsed)
      in if list_ex (\<lambda>tool. str_in tool user_agent) attack_tools
         then (True, ''Suspicious tool: '' @ parsed.user_agent parsed)
         else (manual_alert, attack_reason))"

text \<open>
  The tail shared by the three analysers once no signature has fired: predict, compute the
  confidence, and raise an alert on the label \<open>-1\<close>. An exception that reaches the outer
  handler is printed and the analyser returns \<open>None\<close>.
\<close>

definition classify ::
  "string \<Rightarrow> classifier \<Rightarrow> nat list \<Rightarrow> ids_manager \<Rightarrow> (rat \<Rightarrow> ids_manager \<times> alert)
   \<Rightarrow> ids_manager \<times> alert option" where
  "classify name model features self mk =
     (case predict model features of
        Raises e \<Rightarrow> (print (Error_analyzing name e) self, None)
      | Returns prediction \<Rightarrow>
          (case ml_confidence model features of
             Raises e \<Rightarrow> (print (Error_analyzing name e) self, None)
           | Returns conf \<Rightarrow>
               if prediction = - 1 then (let (self', alert) = mk conf in (self', Some alert))
               else (self, None)))"

definition analyze_web_log :: "string \<Rightarrow> ids_manager \<Rightarrow> string \<Rightarrow> ids_manager \<times> alert option" where
  "analyze_web_log now self log_line =
     (case web_model self of
        None \<Rightarrow> (self, None)
      | Some model \<Rightarrow>
          (case parse_log_line log_line of
             None \<Rightarrow> (self, None)
           | Some parsed \<Rightarrow>
               (let (manual_alert, attack_reason) = web_signature parsed in
                if manual_alert then
                  (let (self', alert) =
                     create_alert now self ''WEB_ANOMALY'' ''HIGH'' attack_reason
                       (request_method parsed @ '' '' @ url parsed) (ip parsed) (user_agent parsed)
                       (95 / 100)
                   in (self', Some alert))
                else
                  (let self1 = print Extracting_features self in
                   classify ''web'' model (extract_features parsed) self1
                     (create_alert now self1 ''WEB_ANOMALY'' ''HIGH''
                        ''Web Layer Attack (ML Detection)''
                        (request_method parsed @ '' '' @ url parsed) (ip parsed) (user_agent parsed))))))"

text \<open>The signature rules of \<open>analyze_db_log\<close> on the extracted query.\<close>

definition sql_injection_patterns :: "string list" where
  "sql_injection_patterns =
     [''' or '1'='1'', ''' or 1=1'', ''' or 'a'='a'', ''admin' --'', ''' --'', '''; drop'',
      '''; delete'', '''; exec'', '''; execute'', ''union select'', ''union all'', ''exec('',
      ''execute('', ''script>'', ''<script'']"

definition stacked_keywords :: "string list" where
  "stacked_keywords =
     [''delete'', ''drop'', ''truncate'', ''insert'', ''update'', ''exec'', ''execute'']"

definition db_signature :: "string \<Rightarrow> bool \<times> string" where
  "db_signature query =
     (let query_lower = lower query;
          (manual_alert, attack_reason) =
            (if list_ex (\<lambda>pattern. str_in pattern query_lower) sql_injection_patterns
             then (True, ''SQL Injection detected'') else (False, ''''));
          (manual_alert, attack_reason) =
            (if str_in ''; '' query_lower \<and> 1 < length (split_on CHR '';'' query) then
               (case find (\<lambda>keyword. str_in keyword query_lower) stacked_keywords of
                  Some keyword \<Rightarrow> (True, ''Stacked query with '' @ upper keyword @ '' detected'')
                | None \<Rightarrow> (manual_alert, attack_reason))
             else (manual_alert, attack_reason))
      in if str_in ''drop'' query_lower \<or> str_in ''truncate'' query_lower
         then (True, ''Dangerous operation detected (DROP/TRUNCATE)'')
         else (manual_alert, attack_reason))"

definition analyze_db_log :: "string \<Rightarrow> ids_manager \<Rightarrow> string \<Rightarrow> ids_manager \<times> alert option" where
  "analyze_db_log now self log_line =
     (case db_model self of
        None \<Rightarrow> (self, None)
      | Some model \<Rightarrow>
          (let query = parse_db_log log_line in
           if query = [] then (self, None)
           else
             (let (manual_alert, attack_reason) = db_signature query in
              if manual_alert then
                (let (self', alert) =
                   create_alert now self ''DB_ANOMALY'' ''CRITICAL'' attack_reason
                     (take 200 query) ''Unknown'' ''Unknown'' (95 / 100)
                 in (self', Some alert))
              else
                classify ''DB'' model (extract_sql_features query) self
                  (create_alert now self ''DB_ANOMALY'' ''CRITICAL''
                     ''SQL Injection/Database Attack (ML Detection)''
                     (take 200 query) ''Unknown'' ''Unknown''))))"

text \<open>The signature rules of \<open>analyze_email_log\<close>: flag, reason and severity.\<close>

definition phishing_patterns :: "string list" where
  "phishing_patterns =
     [''verify'', ''confirm'', ''urgent'', ''action+required'', ''action%20required'',
      ''update+account'', ''update%20account'', ''click+here'', ''click%20here'',
      ''login+required'', ''login%20required'', ''verify+identity'', ''verify%20identity'',
      ''confirm+identity'', ''confirm%20identity'', ''unusual+activity'', ''unusual%20activity'',
      ''suspend'', ''expire'', ''locked'', ''disable'', ''compromised'']"

definition spam_patterns :: "string list" where
  "spam_patterns =
     [''viagra'', ''casino'', ''lottery'', ''prize'', ''click+link'', ''click%20link'',
      ''open+attachment'', ''open%20attachment'', ''download'', ''free+money'',
      ''free%20money'', ''congrats'', ''winner'', ''claim+reward'', ''claim%20reward'']"

definition dangerous_patterns :: "string list" where
  "dangerous_patterns =
     [''.exe'', ''.bat'', ''.cmd'', ''.scr'', ''.vbs'', ''.js'', ''.zip'', ''.rar'',
      ''malware'', ''trojan'', ''ransomware'', ''exploit'', ''backdoor'']"

definition suspicious_agents :: "string list" where
  "suspicious_agents =
     [''curl'', ''wget'', ''python'', ''java'', ''powershell'', ''bash'',
      ''perl'', ''ruby'', ''node'', ''scrapy'', ''bot'', ''exploit'']"

definition email_signature :: "parsed \<Rightarrow> bool \<times> string \<times> string" where
  "email_signature parsed =
     (let url = lower (url parsed);
          user_agent = lower (user_agent parsed);
          (manual_alert, attack_reason, severity) = (False, '''', ''MEDIUM'');
          (manual_alert, attack_reason, severity) =
            (if list_ex (\<lambda>pattern. str_in pattern url) phishing_patterns
             then (True, ''Phishing email pattern detected'', ''HIGH'')
             else (manual_alert, attack_reason, severity));
          (manual_alert, attack_reason, severity) =
            (if list_ex (\<lambda>pattern. str_in pattern url) spam_patterns
             then (True, ''Spam/Malware email pattern detected'', ''MEDIUM'')
             else (manual_alert, attack_reason, severity));
          (manual_alert, attack_reason, severity) =
            (if list_ex (\<lambda>pattern. str_in pattern url) dangerous_patterns
             then (True, ''Dangerous file/payload pattern detected'', ''CRITICAL'')
             else (manual_alert, attack_reason, severity))
      in if list_ex (\<lambda>agent. str_in agent user_agent) suspicious_agents
         then (True, ''Suspicious email client: '' @ parsed.user_agent parsed, ''HIGH'')
         else (manual_alert, attack_reason, severity))"

definition analyze_email_log :: "string \<Rightarrow> ids_manager \<Rightarrow> string \<Rightarrow> ids_manager \<times> alert option" where
  "analyze_email_log now self log_line =
     (case email_model self of
        None \<Rightarrow> (self, None)
      | Some model \<Rightarrow>
          (case parse_log_line log_line of
             None \<Rightarrow> (self, None)
           | Some parsed \<Rightarrow>
               (let (manual_alert, attack_reason, sev) = email_signature parsed in
                if manual_alert then
                  (let (self', alert) =
                     create_alert now self ''EMAIL_ANOMALY'' sev attack_reason
                       (request_method parsed @ '' '' @ url parsed) (ip parsed) ''Unknown'' (90 / 100)
                   in (self', Some alert))
                else
                  (let self1 = print Extracting_features self in
                   classify ''email'' model (extract_features parsed) self1
                     (create_alert now self1 ''EMAIL_ANOMALY'' ''MEDIUM''
                        ''Email Service Attack (ML Detection)''
                        (request_method parsed @ '' '' @ url parsed) (ip parsed) ''Unknown'')))))"

text \<open>\<open>save_alerts\<close>: a failing write is caught and printed.\<close>

definition save_alerts :: "ids_manager \<Rightarrow> ids_manager" where
  "save_alerts self =
     (if alerts_file_writable self then self\<lparr>alerts_file := Some (alerts self)\<rparr>
      else print Error_saving_alerts self)"

text \<open>
  \<open>get_alerts\<close>: a filter argument that is \<open>None\<close> or the empty string is not applied.
\<close>

definition get_alerts :: "ids_manager \<Rightarrow> string option \<Rightarrow> string option \<Rightarrow> int \<Rightarrow> alert list" where
  "get_alerts self alert_type' severity' limit =
     (let filtered = alerts self;
          filtered = (case alert_type' of
                        None \<Rightarrow> filtered
                      | Some t \<Rightarrow> if t = [] then filtered
                                  else filter (\<lambda>a. alert_type a = t) filtered);
          filtered = (case severity' of
                        None \<Rightarrow> filtered
                      | Some s \<Rightarrow> if s = [] then filtered
                                  else filter (\<lambda>a. severity a = s) filtered)
      in slice_from (- limit) filtered)"

definition clear_alerts :: "ids_manager \<Rightarrow> ids_manager" where
  "clear_alerts self = save_alerts (self\<lparr>alerts := []\<rparr>)"

text \<open>The entry \<open>models_loaded\<close> of \<open>get_statistics\<close>.\<close>

definition models_loaded :: "ids_manager \<Rightarrow> bool \<times> bool \<times> bool" where
  "models_loaded self = (web_model self \<noteq> None, db_model self \<noteq> None, email_model self \<noteq> None)"


section \<open>The HTTP handlers of the detection endpoints (enhanced_api.py)\<close>

text \<open>
  The module globals the handlers use: the manager (\<open>None\<close> until initialised) and the
  deployment log that \<open>log_deployment\<close> appends to.
\<close>

record globals =
  ids_manager :: "ids_manager option"
  deployment_logs :: "string list"

definition log_deployment :: "string \<Rightarrow> globals \<Rightarrow> globals" where
  "log_deployment message g = g\<lparr>deployment_logs := deployment_logs g @ [message]\<rparr>"

text \<open>
  A response: a JSON error with its status code, or one of the three bodies sent with
  status 200.
\<close>

datatype response =
    Error_response nat string
  | Alerts_response "alert list" nat "bool \<times> bool \<times> bool"
  | Analyze_response "alert option" bool
  | Bulk_response nat nat "alert list"

definition status_code :: "response \<Rightarrow> nat" where
  "status_code r = (case r of Error_response code msg \<Rightarrow> code | _ \<Rightarrow> 200)"

text \<open>
  The query parameters of \<open>GET /api/ids/alerts\<close>; \<open>arg_limit\<close> is the parameter \<open>limit\<close>
  read as an integer, \<open>None\<close> when it is absent or not an integer.
\<close>

record alerts_args =
  arg_type :: "string option"
  arg_severity :: "string option"
  arg_limit :: "int option"

definition api_get_alerts :: "globals \<Rightarrow> alerts_args \<Rightarrow> response" where
  "api_get_alerts g args =
     (case ids_manager g of
        None \<Rightarrow> Error_response 500 ''IDS not initialized''
      | Some self \<Rightarrow>
          (let limit = (case arg_limit args of None \<Rightarrow> 50 | Some l \<Rightarrow> l);
               found = get_alerts self (arg_type args) (arg_severity args) limit
           in Alerts_response found (length found) (models_loaded self)))"

text \<open>
  The JSON body of \<open>POST /api/ids/analyze\<close> (an absent key is \<open>None\<close>), the part of the
  handler after the analyser has returned, and the handler.
\<close>

record analyze_body =
  body_log_line :: "string option"
  body_type :: "string option"

definition analyze_respond :: "globals \<Rightarrow> ids_manager \<times> alert option \<Rightarrow> globals \<times> response" where
  "analyze_respond g r =
     (case r of
        (self', None) \<Rightarrow> (g\<lparr>ids_manager := Some self'\<rparr>, Analyze_response None False)
      | (self', Some a) \<Rightarrow>
          (log_deployment ('' '' @ alert_type a @ '': '' @ attack_type a)
             (g\<lparr>ids_manager := Some (save_alerts self')\<rparr>),
           Analyze_response (Some a) True))"

definition api_analyze_log :: "string \<Rightarrow> globals \<Rightarrow> analyze_body \<Rightarrow> globals \<times> response" where
  "api_analyze_log now g data =
     (case ids_manager g of
        None \<Rightarrow> (g, Error_response 500 ''IDS not initialized'')
      | Some self \<Rightarrow>
          (let log_line = (case body_log_line data of None \<Rightarrow> [] | Some l \<Rightarrow> l);
               log_type = (case body_type data of None \<Rightarrow> ''web'' | Some t \<Rightarrow> t)
           in if log_line = [] then (g, Error_response 400 ''log_line is required'')
              else if log_type = ''web'' then analyze_respond g (analyze_web_log now self log_line)
              else if log_type = ''db'' then analyze_respond g (analyze_db_log now self log_line)
              else if log_type = ''email''
              then analyze_respond g (analyze_email_log now self log_line)
              else (g, Error_response 400 (''Unknown log type: '' @ log_type))))"

text \<open>
  The JSON body of \<open>POST /api/ids/bulk-analyze\<close>, and the loop over its lines; \<open>clock i\<close> is
  the time at which line \<open>i\<close> is analysed.
\<close>

record bulk_body =
  body_logs :: "string list option"
  bulk_type :: "string option"

fun bulk_loop ::
  "(nat \<Rightarrow> string) \<Rightarrow> string \<Rightarrow> nat \<Rightarrow> ids_manager \<Rightarrow> string list \<Rightarrow> alert list
   \<Rightarrow> ids_manager \<times> alert list" where
  "bulk_loop clock log_type i self [] detected_alerts = (self, detected_alerts)"
| "bulk_loop clock log_type i self (log_line # logs) detected_alerts =
     (let (self', found) =
            (if log_type = ''web'' then analyze_web_log (clock i) self log_line
             else if log_type = ''db'' then analyze_db_log (clock i) self log_line
             else if log_type = ''email'' then analyze_email_log (clock i) self log_line
             else (self, None))
      in bulk_loop clock log_type (Suc i) self' logs
           (case found of None \<Rightarrow> detected_alerts | Some a \<Rightarrow> detected_alerts @ [a]))"

definition api_bulk_analyze_logs ::
  "(nat \<Rightarrow> string) \<Rightarrow> globals \<Rightarrow> bulk_body \<Rightarrow> globals \<times> response" where
  "api_bulk_analyze_logs clock g data =
     (case ids_manager g of
        None \<Rightarrow> (g, Error_response 500 ''IDS not initialized'')
      | Some self \<Rightarrow>
          (let logs = (case body_logs data of None \<Rightarrow> [] | Some ls \<Rightarrow> ls);
               log_type = (case bulk_type data of None \<Rightarrow> ''web'' | Some t \<Rightarrow> t)
           in if logs = [] then (g, Error_response 400 ''logs array is required'')
              else
                (let (self', detected_alerts) = bulk_loop clock log_type 0 self logs [];
                     self'' = (if detected_alerts = [] then self' else save_alerts self')
                 in (log_deployment
                       ('' Analyzed '' @ str_nat (length logs) @ '' logs, detected ''
                          @ str_nat (length detected_alerts) @ '' anomalies'')
                       (g\<lparr>ids_manager := Some self''\<rparr>),
                     Bulk_response (length logs) (length detected_alerts) detected_alerts))))"

section \<open>Definitions used to state the properties\<close>

text \<open>
  A sequence of calls of \<open>_create_alert\<close> on one manager: each call is the tuple of its
  arguments (with the time of the call first), and the result is the manager afterwards
  with the alerts the calls returned, in order.
\<close>

type_synonym alert_args =
  "string \<times> string \<times> string \<times> string \<times> string \<times> string \<times> string \<times> rat"

definition create_call :: "ids_manager \<Rightarrow> alert_args \<Rightarrow> ids_manager \<times> alert" where
  "create_call self c =
     (case c of (now, ty, sev, att, pay, src, ua, conf) \<Rightarrow>
        create_alert now self ty sev att pay src ua conf)"

fun create_alerts :: "ids_manager \<Rightarrow> alert_args list \<Rightarrow> ids_manager \<times> alert list" where
  "create_alerts self [] = (self, [])"
| "create_alerts self (c # calls) =
     (let r = create_call self c; rs = create_alerts (fst r) calls
      in (fst rs, snd r # snd rs))"

text \<open>The call that \<open>analyze_db_log\<close> makes on the query \<open>DROP TABLE users\<close>.\<close>

definition sample_call :: alert_args where
  "sample_call =
     (''2024-11-27T10:30:04'', ''DB_ANOMALY'', ''CRITICAL'',
      ''Dangerous operation detected (DROP/TRUNCATE)'', ''DROP TABLE users'', ''Unknown'',
      ''Unknown'', 95 / 100)"

text \<open>An alert passes the filter of a listing: each criterion that is given and not empty holds.\<close>

definition matches :: "string option \<Rightarrow> string option \<Rightarrow> alert \<Rightarrow> bool" where
  "matches t s a =
     ((case t of None \<Rightarrow> True | Some t' \<Rightarrow> t' = [] \<or> alert_type a = t') \<and>
      (case s of None \<Rightarrow> True | Some s' \<Rightarrow> s' = [] \<or> severity a = s'))"



text \<open>
  An ordered list of rule categories, the first matching one deciding: a category gives its
  verdict on a record, or \<open>None\<close> when it does not match. Below, the categories of the three
  analysers, with the verdicts the source attaches to them.
\<close>

fun first_match :: "('r \<Rightarrow> 'v option) list \<Rightarrow> 'r \<Rightarrow> 'v option" where
  "first_match [] r = None"
| "first_match (c # cs) r = (case c r of Some v \<Rightarrow> Some v | None \<Rightarrow> first_match cs r)"

definition category :: "('r \<Rightarrow> bool) \<Rightarrow> ('r \<Rightarrow> 'v) \<Rightarrow> 'r \<Rightarrow> 'v option" where
  "category hit verdict r = (if hit r then Some (verdict r) else None)"

definition web_admin :: "parsed \<Rightarrow> string option" where
  "web_admin = category (\<lambda>p. list_ex (\<lambda>pattern. str_in pattern (lower (url p))) admin_patterns)
     (\<lambda>p. ''Admin/command access detected'')"

definition web_traversal :: "parsed \<Rightarrow> string option" where
  "web_traversal = category
     (\<lambda>p. str_in ''..'' (lower (url p)) \<or> str_in ''%2e%2e'' (lower (url p)) \<or>
          str_in ''..%2f'' (lower (url p)) \<or> str_in ''%252e%252e'' (lower (url p)))
     (\<lambda>p. ''Path traversal attempt'')"

definition web_script :: "parsed \<Rightarrow> string option" where
  "web_script = category
     (\<lambda>p. str_in ''<script'' (lower (url p)) \<or> str_in ''javascript:'' (lower (url p)) \<or>
          str_in ''%3cscript'' (lower (url p)) \<or> str_in ''<iframe'' (lower (url p)))
     (\<lambda>p. ''Script injection attempt'')"

definition web_sql :: "parsed \<Rightarrow> string option" where
  "web_sql = category (\<lambda>p. list_ex (\<lambda>pattern. str_in pattern (lower (url p))) web_sql_patterns)
     (\<lambda>p. ''SQL injection pattern detected'')"

definition web_tool :: "parsed \<Rightarrow> string option" where
  "web_tool = category (\<lambda>p. list_ex (\<lambda>tool. str_in tool (lower (user_agent p))) attack_tools)
     (\<lambda>p. ''Suspicious tool: '' @ user_agent p)"

definition email_phishing :: "parsed \<Rightarrow> (string \<times> string) option" where
  "email_phishing = category
     (\<lambda>p. list_ex (\<lambda>pattern. str_in pattern (lower (url p))) phishing_patterns)
     (\<lambda>p. (''Phishing email pattern detected'', ''HIGH''))"

definition email_spam :: "parsed \<Rightarrow> (string \<times> string) option" where
  "email_spam = category
     (\<lambda>p. list_ex (\<lambda>pattern. str_in pattern (lower (url p))) spam_patterns)
     (\<lambda>p. (''Spam/Malware email pattern detected'', ''MEDIUM''))"

definition email_dangerous :: "parsed \<Rightarrow> (string \<times> string) option" where
  "email_dangerous = category
     (\<lambda>p. list_ex (\<lambda>pattern. str_in pattern (lower (url p))) dangerous_patterns)
     (\<lambda>p. (''Dangerous file/payload pattern detected'', ''CRITICAL''))"

definition email_agent :: "parsed \<Rightarrow> (string \<times> string) option" where
  "email_agent = category
     (\<lambda>p. list_ex (\<lambda>agent. str_in agent (lower (user_agent p))) suspicious_agents)
     (\<lambda>p. (''Suspicious email client: '' @ user_agent p, ''HIGH''))"

definition db_sqli :: "string \<Rightarrow> string option" where
  "db_sqli = category
     (\<lambda>query. list_ex (\<lambda>pattern. str_in pattern (lower query)) sql_injection_patterns)
     (\<lambda>query. ''SQL Injection detected'')"

definition db_stacked :: "string \<Rightarrow> string option" where
  "db_stacked query =
     (if str_in ''; '' (lower query) \<and> 1 < length (split_on CHR '';'' query)
      then map_option (\<lambda>keyword. ''Stacked query with '' @ upper keyword @ '' detected'')
             (find (\<lambda>keyword. str_in keyword (lower query)) stacked_keywords)
      else None)"

definition db_dangerous :: "string \<Rightarrow> string option" where
  "db_dangerous = category
     (\<lambda>query. str_in ''drop'' (lower query) \<or> str_in ''truncate'' (lower query))
     (\<lambda>query. ''Dangerous operation detected (DROP/TRUNCATE)'')"

text \<open>
  The least number of groups a match of a pattern closes; the parsers index the groups of a
  match below that number only.
\<close>

fun min_groups :: "re \<Rightarrow> nat" where
  "min_groups (Str t) = 0"
| "min_groups (Plus p) = 0"
| "min_groups (Star p) = 0"
| "min_groups (Lazy p) = 0"
| "min_groups (Cat a b) = min_groups a + min_groups b"
| "min_groups (Alt a b) = min (min_groups a) (min_groups b)"
| "min_groups (Opt a) = 0"
| "min_groups (Grp a) = Suc (min_groups a)"

text \<open>Sample inputs: access-log lines, a line of the MySQL general log, classifiers, the globals.\<close>

definition admin_line :: string where
  \<open>admin_line = ''192.168.1.50 - - [27/Nov/2024:10:30:04 +0000] "GET /admin/login.php HTTP/1.1" 200 512 "-" "Mozilla/5.0"''\<close>

definition admin_curl_line :: string where
  \<open>admin_curl_line = ''192.168.1.50 - - [27/Nov/2024:10:30:04 +0000] "GET /admin HTTP/1.1" 200 512 "-" "curl/7.68.0"''\<close>

definition benign_line :: string where
  \<open>benign_line = ''10.0.0.1 - - [27/Nov/2024:10:30:04 +0000] "GET /index.html HTTP/1.1" 200 1024 "-" "Mozilla/5.0"''\<close>

definition new_globals :: globals where
  "new_globals = \<lparr>ids_manager = Some (init None None None), deployment_logs = []\<rparr>"

definition bare_model :: classifier where
  "bare_model =
     \<lparr>predict = (\<lambda>f. Returns (- 1)),
      decision_function = (\<lambda>f. Raises AttributeError),
      predict_proba = (\<lambda>f. Raises AttributeError)\<rparr>"


definition general_log_line :: string where
  "general_log_line = ''2025-11-19T10:00:00.123456Z   3 Query   DROP TABLE users''"


definition select_line :: string where
  "select_line = ''SELECT * FROM users WHERE id=1''"

definition phishing_download_line :: string where
  \<open>phishing_download_line = ''10.0.0.9 - - [27/Nov/2024:10:30:04 +0000] "GET /verify/download HTTP/1.1" 200 128 "-" "Mozilla/5.0"''\<close>

definition stacked_line :: string where
  "stacked_line = ''SELECT * FROM users; DROP TABLE users;--''"




section \<open>The groups of a match\<close>

lemma greedy_star_cont: "greedy_star p s k = Some x \<Longrightarrow> \<exists>r. k r = Some x"
  by (induction s) (auto split: if_splits option.splits)

lemma lazy_star_cont: "lazy_star p s k = Some x \<Longrightarrow> \<exists>r. k r = Some x"
  by (induction s) (auto split: if_splits option.splits)

lemma re_m_groups:
  "re_m r k (s, g) = Some x \<Longrightarrow>
   \<exists>s' g'. k (s', g') = Some x \<and> length g + min_groups r \<le> length g'"
proof (induction r arbitrary: k s g x)
  case (Str t)
  then show ?case by (auto split: if_splits)
next
  case (Plus p)
  then show ?case by (auto split: list.splits if_splits dest!: greedy_star_cont)
next
  case (Star p)
  then show ?case by (auto dest!: greedy_star_cont)
next
  case (Lazy p)
  then show ?case by (auto dest!: lazy_star_cont)
next
  case (Cat a b)
  from Cat.prems have "re_m a (re_m b k) (s, g) = Some x" by simp
  from Cat.IH(1) [OF this] obtain s1 g1 where
    1: "re_m b k (s1, g1) = Some x" "length g + min_groups a \<le> length g1" by blast
  from Cat.IH(2) [OF 1(1)] obtain s2 g2 where
    2: "k (s2, g2) = Some x" "length g1 + min_groups b \<le> length g2" by blast
  from 1(2) 2 show ?case by (intro exI [of _ s2] exI [of _ g2]) simp
next
  case (Alt a b)
  show ?case
  proof (cases "re_m a k (s, g)")
    case None
    with Alt.prems have "re_m b k (s, g) = Some x" by simp
    from Alt.IH(2) [OF this] show ?thesis by fastforce
  next
    case (Some y)
    with Alt.prems have "re_m a k (s, g) = Some x" by simp
    from Alt.IH(1) [OF this] show ?thesis by fastforce
  qed
next
  case (Opt a)
  show ?case
  proof (cases "re_m a k (s, g)")
    case None
    with Opt.prems show ?thesis by auto
  next
    case (Some y)
    with Opt.prems have "re_m a k (s, g) = Some x" by simp
    from Opt.IH [OF this] show ?thesis by fastforce
  qed
next
  case (Grp a)
  from Grp.prems have
    "re_m a (\<lambda>(r, g'). k (r, g' @ [take (length s - length r) s])) (s, g) = Some x"
    by simp
  from Grp.IH [OF this] obtain s1 g1 where
    "k (s1, g1 @ [take (length s - length s1) s]) = Some x"
    "length g + min_groups a \<le> length g1" by auto
  then show ?case
    by (intro exI [of _ s1] exI [of _ "g1 @ [take (length s - length s1) s]"]) simp
qed

lemma re_match_groups: "re_match r s = Some g \<Longrightarrow> min_groups r \<le> length g"
  using re_m_groups [of r "\<lambda>(rest, g). Some g" s "[]" g] by (auto simp: re_match_def)

lemma re_search_groups: "re_search r s = Some g \<Longrightarrow> min_groups r \<le> length g"
  by (induction s) (auto split: option.splits dest: re_match_groups)

lemma LOG_PATTERN_groups: "re_match LOG_PATTERN line = Some g \<Longrightarrow> 9 \<le> length g"
  using re_match_groups [of LOG_PATTERN line g] by (simp add: LOG_PATTERN_def)

lemma DB_PATTERN_groups: "re_search DB_PATTERN line = Some g \<Longrightarrow> 2 \<le> length g"
  using re_search_groups [of DB_PATTERN line g] by (simp add: DB_PATTERN_def)


section \<open>The alert store\<close>

lemma create_call_alerts:
  "length (alerts self) \<le> max_alerts self \<Longrightarrow>
   alerts (fst (create_call self c)) =
     drop (Suc (length (alerts self)) - max_alerts self) (alerts self @ [snd (create_call self c)])"
  by (cases "alerts self")
     (auto simp: create_call_def create_alert_def Let_def le_Suc_eq drop_Cons' split: prod.splits)

lemma create_call_max: "max_alerts (fst (create_call self c)) = max_alerts self"
  by (simp add: create_call_def create_alert_def Let_def split: prod.splits)

lemma create_call_id: "alert_id (snd (create_call self c)) = Suc (length (alerts self))"
  by (simp add: create_call_def create_alert_def Let_def split: prod.splits)

lemma create_call_length:
  "length (alerts self) \<le> max_alerts self \<Longrightarrow>
   length (alerts (fst (create_call self c))) = min (Suc (length (alerts self))) (max_alerts self)"
  by (simp add: create_call_alerts) 

lemma create_alerts_max: "max_alerts (fst (create_alerts self calls)) = max_alerts self"
  by (induction calls arbitrary: self) (auto simp: Let_def create_call_max)

lemma create_alerts_length: "length (snd (create_alerts self calls)) = length calls"
  by (induction calls arbitrary: self) (auto simp: Let_def)

lemma create_alerts_store:
  "length (alerts self) \<le> max_alerts self \<Longrightarrow>
   alerts (fst (create_alerts self calls)) =
     drop (length (alerts self) + length calls - max_alerts self)
       (alerts self @ snd (create_alerts self calls))"
proof (induction calls arbitrary: self)
  case Nil
  then show ?case by simp
next
  case (Cons c calls)
  let ?r = "create_call self c"
  let ?rest = "snd (create_alerts (fst ?r) calls)"
  have len: "length (alerts (fst ?r)) = min (Suc (length (alerts self))) (max_alerts self)"
    using Cons.prems by (rule create_call_length)
  have le: "length (alerts (fst ?r)) \<le> max_alerts (fst ?r)"
    using len by (simp add: create_call_max)
  have ih: "alerts (fst (create_alerts (fst ?r) calls)) =
      drop (length (alerts (fst ?r)) + length calls - max_alerts self) (alerts (fst ?r) @ ?rest)"
    using Cons.IH[OF le] by (simp add: create_call_max)
  show ?case
  proof (cases "length (alerts self) < max_alerts self")
    case True
    then have "alerts (fst ?r) = alerts self @ [snd ?r]"
      using create_call_alerts[OF Cons.prems, of c] by simp
    then show ?thesis using ih by (simp add: Let_def)
  next
    case False
    let ?X = "alerts self @ snd ?r # ?rest"
    from False have eq: "length (alerts self) = max_alerts self" using Cons.prems by simp
    then have "alerts (fst ?r) = drop 1 (alerts self @ [snd ?r])"
      using create_call_alerts[OF Cons.prems, of c] by simp
    then have app: "alerts (fst ?r) @ ?rest = drop 1 ?X"
      by (cases "alerts self") simp_all
    have "length (alerts (fst ?r)) = max_alerts self" using len eq by simp
    then have "alerts (fst (create_alerts (fst ?r) calls)) = drop (length calls) (drop 1 ?X)"
      using ih app by simp
    also have "\<dots> = drop (Suc (length calls)) ?X" by (simp only: drop_drop) simp
    finally have fin: "alerts (fst (create_alerts (fst ?r) calls)) = drop (Suc (length calls)) ?X" .
    have unf: "fst (create_alerts self (c # calls)) = fst (create_alerts (fst ?r) calls)"
      "snd (create_alerts self (c # calls)) = snd ?r # ?rest"
      by (simp_all add: Let_def)
    have idx: "length (alerts self) + length (c # calls) - max_alerts self = Suc (length calls)"
      using eq by simp
    show ?thesis unfolding unf idx using fin .
  qed
qed

lemma create_alerts_ids:
  "length (alerts self) \<le> max_alerts self \<Longrightarrow> i < length calls \<Longrightarrow>
   alert_id (snd (create_alerts self calls) ! i) =
     Suc (min (length (alerts self) + i) (max_alerts self))"
proof (induction calls arbitrary: self i)
  case Nil
  then show ?case by simp
next
  case (Cons c calls)
  let ?r = "create_call self c"
  have len: "length (alerts (fst ?r)) = min (Suc (length (alerts self))) (max_alerts self)"
    using Cons.prems(1) by (rule create_call_length)
  have le: "length (alerts (fst ?r)) \<le> max_alerts (fst ?r)"
    using len by (simp add: create_call_max)
  show ?case
  proof (cases i)
    case 0
    then show ?thesis using Cons.prems by (simp add: Let_def create_call_id)
  next
    case (Suc j)
    then have "j < length calls" using Cons.prems by simp
    from Cons.IH[OF le this] Suc len Cons.prems(1)
    show ?thesis by (simp add: Let_def create_call_max min_def split: if_splits)
  qed
qed


lemma slice_from_zero: "slice_from 0 xs = xs"
  by (simp add: slice_from_def)

lemma slice_from_neg: "0 < l \<Longrightarrow> slice_from (- l) xs = drop (length xs - nat l) xs"
  by (auto simp: slice_from_def Let_def max_def nat_diff_distrib' intro!: arg_cong2[where f=drop])

lemma get_alerts_filter:
  "get_alerts self t s limit = slice_from (- limit) (filter (matches t s) (alerts self))"
proof -
  have m: "matches t s =
      (\<lambda>a. (case t of None \<Rightarrow> True | Some t' \<Rightarrow> t' = [] \<or> alert_type a = t') \<and>
           (case s of None \<Rightarrow> True | Some s' \<Rightarrow> s' = [] \<or> severity a = s'))"
    by (rule ext) (simp add: matches_def)
  show ?thesis
    unfolding m by (cases t; cases s) (simp_all add: get_alerts_def Let_def conj_commute)
qed


section \<open>Strings, rounding and the signature rules\<close>

lemma startswith_append: "startswith s (p @ q) \<Longrightarrow> startswith s p"
  by (induction s p rule: startswith.induct) auto

lemma str_in_append: "str_in (p @ q) s \<Longrightarrow> str_in p s"
  by (induction s) (auto dest: startswith_append)

lemma str_in_nonempty: "str_in p s \<Longrightarrow> p \<noteq> [] \<Longrightarrow> s \<noteq> []"
  by (cases s) auto

lemma round4_signature: "round4 (19 / 20) = 19 / 20" "round4 (9 / 10) = 9 / 10"
  by (simp_all add: round4_def Let_def)

lemma round4_half: "round4 (1 / 2) = 1 / 2"
  by (simp add: round4_def Let_def)

lemma db_signature_dangerous:
  "str_in ''drop'' (lower query) \<or> str_in ''truncate'' (lower query) \<Longrightarrow>
   db_signature query = (True, ''Dangerous operation detected (DROP/TRUNCATE)'')"
  by (simp add: db_signature_def Let_def split_beta)


section \<open>The confidence of an alert\<close>



lemma create_alert_confidence:
  "confidence (snd (create_alert now self ty sev att pay src ua c)) = round4 c"
  by (simp add: create_alert_def Let_def)








lemma ml_confidence_fallback:
  assumes "decision_function m f = Raises AttributeError \<or> decision_function m f = Raises TypeError"
    and "\<exists>e. predict_proba m f = Raises e"
  shows "ml_confidence m f = Returns (1 / 2)"
  using assms by (auto simp: ml_confidence_def)

lemma classify_fallback:
  assumes "decision_function m f = Raises AttributeError \<or> decision_function m f = Raises TypeError"
    and "\<exists>e. predict_proba m f = Raises e"
    and "predict m f = Returns (- 1)"
    and "\<And>c. confidence (snd (mk c)) = round4 c"
  shows "\<exists>self' a. classify name m f self mk = (self', Some a) \<and> confidence a = 1 / 2"
  using ml_confidence_fallback [OF assms(1,2)] assms(3,4)
  by (simp add: classify_def split_beta round4_half)


section \<open>The analysers and their rule categories\<close>

text \<open>What each analyser does once the model is there and the line is parsed.\<close>

lemma analyze_web_log_signature:
  assumes "web_model self = Some m" and "parse_log_line line = Some p"
    and "web_signature p = (True, reason)"
  shows "analyze_web_log now self line =
     (fst (create_alert now self ''WEB_ANOMALY'' ''HIGH'' reason
             (request_method p @ '' '' @ url p) (ip p) (user_agent p) (95 / 100)),
      Some (snd (create_alert now self ''WEB_ANOMALY'' ''HIGH'' reason
             (request_method p @ '' '' @ url p) (ip p) (user_agent p) (95 / 100))))"
  using assms by (simp add: analyze_web_log_def split_beta)

lemma analyze_web_log_classify:
  assumes "web_model self = Some m" and "parse_log_line line = Some p"
    and "\<not> fst (web_signature p)"
  shows "analyze_web_log now self line =
     classify ''web'' m (extract_features p) (print Extracting_features self)
       (create_alert now (print Extracting_features self) ''WEB_ANOMALY'' ''HIGH''
          ''Web Layer Attack (ML Detection)'' (request_method p @ '' '' @ url p) (ip p)
          (user_agent p))"
  using assms by (simp add: analyze_web_log_def split_beta Let_def)

lemma analyze_db_log_signature:
  assumes "db_model self = Some m" and "parse_db_log line \<noteq> []"
    and "db_signature (parse_db_log line) = (True, reason)"
  shows "analyze_db_log now self line =
     (fst (create_alert now self ''DB_ANOMALY'' ''CRITICAL'' reason
             (take 200 (parse_db_log line)) ''Unknown'' ''Unknown'' (95 / 100)),
      Some (snd (create_alert now self ''DB_ANOMALY'' ''CRITICAL'' reason
             (take 200 (parse_db_log line)) ''Unknown'' ''Unknown'' (95 / 100))))"
  using assms by (simp add: analyze_db_log_def split_beta Let_def)

lemma analyze_db_log_classify:
  assumes "db_model self = Some m" and "parse_db_log line \<noteq> []"
    and "\<not> fst (db_signature (parse_db_log line))"
  shows "analyze_db_log now self line =
     classify ''DB'' m (extract_sql_features (parse_db_log line)) self
       (create_alert now self ''DB_ANOMALY'' ''CRITICAL''
          ''SQL Injection/Database Attack (ML Detection)'' (take 200 (parse_db_log line))
          ''Unknown'' ''Unknown'')"
  using assms by (simp add: analyze_db_log_def split_beta Let_def)

lemma analyze_email_log_signature:
  assumes "email_model self = Some m" and "parse_log_line line = Some p"
    and "email_signature p = (True, reason, sev)"
  shows "analyze_email_log now self line =
     (fst (create_alert now self ''EMAIL_ANOMALY'' sev reason
             (request_method p @ '' '' @ url p) (ip p) ''Unknown'' (90 / 100)),
      Some (snd (create_alert now self ''EMAIL_ANOMALY'' sev reason
             (request_method p @ '' '' @ url p) (ip p) ''Unknown'' (90 / 100))))"
  using assms by (simp add: analyze_email_log_def split_beta)

lemma analyze_email_log_classify:
  assumes "email_model self = Some m" and "parse_log_line line = Some p"
    and "\<not> fst (email_signature p)"
  shows "analyze_email_log now self line =
     classify ''email'' m (extract_features p) (print Extracting_features self)
       (create_alert now (print Extracting_features self) ''EMAIL_ANOMALY'' ''MEDIUM''
          ''Email Service Attack (ML Detection)'' (request_method p @ '' '' @ url p) (ip p)
          ''Unknown'')"
  using assms by (simp add: analyze_email_log_def split_beta Let_def)







lemma web_signature_first_match:
  "web_signature p =
     (case first_match [web_tool, web_admin, web_traversal, web_script, web_sql] p of
        Some reason \<Rightarrow> (True, reason) | None \<Rightarrow> (False, []))"
  by (simp add: web_signature_def Let_def category_def web_tool_def web_admin_def
      web_traversal_def web_script_def web_sql_def)

lemma email_signature_first_match:
  "email_signature p =
     (case first_match [email_agent, email_dangerous, email_spam, email_phishing] p of
        Some (reason, sev) \<Rightarrow> (True, reason, sev) | None \<Rightarrow> (False, [], ''MEDIUM''))"
  by (simp add: email_signature_def Let_def category_def email_agent_def email_dangerous_def
      email_spam_def email_phishing_def)

lemma db_signature_first_match:
  "db_signature query =
     (case first_match [db_dangerous, db_stacked, db_sqli] query of
        Some reason \<Rightarrow> (True, reason) | None \<Rightarrow> (False, []))"
  by (simp add: db_signature_def Let_def category_def db_dangerous_def db_stacked_def db_sqli_def
      split: option.splits)

text \<open>The sample call of \<open>_create_alert\<close> is the one \<open>analyze_db_log\<close> makes.\<close>

lemma sample_call_of_analyze_db_log:
  assumes "db_model self = Some m"
  shows "analyze_db_log ''2024-11-27T10:30:04'' self ''DROP TABLE users'' =
     (fst (create_call self sample_call), Some (snd (create_call self sample_call)))"
proof -
  have q: "parse_db_log ''DROP TABLE users'' = ''DROP TABLE users''"
    by code_simp
  have sig: "db_signature (parse_db_log ''DROP TABLE users'') =
      (True, ''Dangerous operation detected (DROP/TRUNCATE)'')"
    by code_simp
  have ne: "parse_db_log ''DROP TABLE users'' \<noteq> []"
    using q by simp
  show ?thesis
    using analyze_db_log_signature [OF assms ne sig, of "''2024-11-27T10:30:04''"] q
    by (simp add: create_call_def sample_call_def)
qed


section \<open>The claims\<close>

text \<open>
  Claim C1, as stated: with the classifier of a domain missing, a line on which a signature
  rule matches still yields the signature alert. It fails: on a new manager without models
  the URL \<open>/admin/login.php\<close> matches the admin rule, and \<open>analyze_web_log\<close> returns \<open>None\<close>.
\<close>

theorem missing_model_skips_signatures:
  "map_option (fst \<circ> web_signature) (parse_log_line admin_line) = Some True \<and>
   snd (analyze_web_log ''2024-11-27T10:30:04'' (init None None None) admin_line) = None"
  by code_simp

text \<open>
  Claim C1, amended: with the classifier of a domain missing, the analyser of that domain
  returns \<open>None\<close> on every line and leaves the manager unchanged; it does not raise, and it
  evaluates no signature rule.
\<close>

theorem missing_model_returns_none:
  "(web_model self = None \<longrightarrow> analyze_web_log now self line = (self, None)) \<and>
   (db_model self = None \<longrightarrow> analyze_db_log now self line = (self, None)) \<and>
   (email_model self = None \<longrightarrow> analyze_email_log now self line = (self, None))"
  by (simp add: analyze_web_log_def analyze_db_log_def analyze_email_log_def)

theorem missing_model_returns_none_witness:
  "analyze_web_log ''2024-11-27T10:30:04'' (init None None None) admin_line
     = (init None None None, None) \<and>
   analyze_db_log ''2024-11-27T10:30:04'' (init None None None) ''DROP TABLE users''
     = (init None None None, None) \<and>
   analyze_email_log ''2024-11-27T10:30:04'' (init None None None) admin_line
     = (init None None None, None)"
  using missing_model_returns_none [of "init None None None" "''2024-11-27T10:30:04''" admin_line]
    missing_model_returns_none [of "init None None None" "''2024-11-27T10:30:04''" "''DROP TABLE users''"]
  by (simp add: init_def)

text \<open>
  Claim C2, as stated: the categories are evaluated in a fixed order and the first one that
  matches determines attack type and severity, so that a web record whose URL matches the
  admin/command category and whose user agent matches the attacker-tool category is
  reported as admin/command. It fails: for \<open>GET /admin\<close> sent by \<open>curl/7.68.0\<close> both
  categories match and the alert says \<open>Suspicious tool: curl/7.68.0\<close>.
\<close>

theorem tool_overrides_admin:
  "map_option web_admin (parse_log_line admin_curl_line)
     = Some (Some ''Admin/command access detected'') \<and>
   map_option web_tool (parse_log_line admin_curl_line)
     = Some (Some ''Suspicious tool: curl/7.68.0'') \<and>
   map_option attack_type
     (snd (analyze_web_log ''2024-11-27T10:30:04'' (init (Some bare_model) None None)
        admin_curl_line)) = Some ''Suspicious tool: curl/7.68.0''"
  by code_simp

text \<open>
  Claim C2, amended: the attack type and severity of a signature alert are those of the
  first matching category in a fixed priority order, which is not the order of evaluation.
  Web: attacker tool, then admin/command, path traversal, script injection, SQL injection
  (the user-agent rule is evaluated last and overrides the URL rules); severity HIGH.
  Email: automation user agent, dangerous payload, spam, phishing (the last matching rule
  wins), each with its own severity. Db: DROP/TRUNCATE, stacked query, SQL injection (the
  last matching rule wins); severity CRITICAL.
\<close>

theorem signature_category_priority:
  "(web_model self = Some m \<and> parse_log_line line = Some p \<and>
    first_match [web_tool, web_admin, web_traversal, web_script, web_sql] p = Some reason \<longrightarrow>
      (\<exists>self' a. analyze_web_log now self line = (self', Some a) \<and>
         attack_type a = reason \<and> severity a = ''HIGH'')) \<and>
   (email_model self = Some m \<and> parse_log_line line = Some p \<and>
    first_match [email_agent, email_dangerous, email_spam, email_phishing] p = Some (reason, sev) \<longrightarrow>
      (\<exists>self' a. analyze_email_log now self line = (self', Some a) \<and>
         attack_type a = reason \<and> severity a = sev)) \<and>
   (db_model self = Some m \<and> parse_db_log line \<noteq> [] \<and>
    first_match [db_dangerous, db_stacked, db_sqli] (parse_db_log line) = Some reason \<longrightarrow>
      (\<exists>self' a. analyze_db_log now self line = (self', Some a) \<and>
         attack_type a = reason \<and> severity a = ''CRITICAL''))"
proof (intro conjI impI; elim conjE)
  assume a: "web_model self = Some m" "parse_log_line line = Some p"
    and "first_match [web_tool, web_admin, web_traversal, web_script, web_sql] p = Some reason"
  then have "web_signature p = (True, reason)"
    by (simp add: web_signature_first_match)
  from analyze_web_log_signature [OF a this, of now]
  show "\<exists>self' a. analyze_web_log now self line = (self', Some a) \<and>
          attack_type a = reason \<and> severity a = ''HIGH''"
    by (simp add: create_alert_def Let_def)
next
  assume a: "email_model self = Some m" "parse_log_line line = Some p"
    and "first_match [email_agent, email_dangerous, email_spam, email_phishing] p
           = Some (reason, sev)"
  then have "email_signature p = (True, reason, sev)"
    by (simp add: email_signature_first_match)
  from analyze_email_log_signature [OF a this, of now]
  show "\<exists>self' a. analyze_email_log now self line = (self', Some a) \<and>
          attack_type a = reason \<and> severity a = sev"
    by (simp add: create_alert_def Let_def)
next
  assume a: "db_model self = Some m" "parse_db_log line \<noteq> []"
    and "first_match [db_dangerous, db_stacked, db_sqli] (parse_db_log line) = Some reason"
  then have "db_signature (parse_db_log line) = (True, reason)"
    by (simp add: db_signature_first_match)
  from analyze_db_log_signature [OF a this, of now]
  show "\<exists>self' a. analyze_db_log now self line = (self', Some a) \<and>
          attack_type a = reason \<and> severity a = ''CRITICAL''"
    by (simp add: create_alert_def Let_def)
qed

theorem signature_category_priority_witness:
  "(\<exists>self' a. analyze_web_log ''2024-11-27T10:30:04''
        (init (Some bare_model) (Some bare_model) (Some bare_model)) admin_curl_line
          = (self', Some a) \<and>
      attack_type a = ''Suspicious tool: curl/7.68.0'' \<and> severity a = ''HIGH'') \<and>
   (\<exists>self' a. analyze_email_log ''2024-11-27T10:30:04''
        (init (Some bare_model) (Some bare_model) (Some bare_model)) phishing_download_line
          = (self', Some a) \<and>
      attack_type a = ''Spam/Malware email pattern detected'' \<and> severity a = ''MEDIUM'') \<and>
   (\<exists>self' a. analyze_db_log ''2024-11-27T10:30:04''
        (init (Some bare_model) (Some bare_model) (Some bare_model)) stacked_line
          = (self', Some a) \<and>
      attack_type a = ''Dangerous operation detected (DROP/TRUNCATE)'' \<and>
      severity a = ''CRITICAL'')"
proof -
  let ?S = "init (Some bare_model) (Some bare_model) (Some bare_model)"
  let ?now = "''2024-11-27T10:30:04''"
  let ?pw = "the (parse_log_line admin_curl_line)"
  let ?pe = "the (parse_log_line phishing_download_line)"
  have m: "web_model ?S = Some bare_model" "db_model ?S = Some bare_model"
    "email_model ?S = Some bare_model"
    by (simp_all add: init_def)
  have "parse_log_line admin_curl_line \<noteq> None"
    by code_simp
  then have pw: "parse_log_line admin_curl_line = Some ?pw"
    by simp
  have fw: "first_match [web_tool, web_admin, web_traversal, web_script, web_sql] ?pw
              = Some ''Suspicious tool: curl/7.68.0''"
    by code_simp
  have "parse_log_line phishing_download_line \<noteq> None"
    by code_simp
  then have pe: "parse_log_line phishing_download_line = Some ?pe"
    by simp
  have fe: "first_match [email_agent, email_dangerous, email_spam, email_phishing] ?pe
              = Some (''Spam/Malware email pattern detected'', ''MEDIUM'')"
    by code_simp
  have q: "parse_db_log stacked_line \<noteq> []"
    by code_simp
  have fd: "first_match [db_dangerous, db_stacked, db_sqli] (parse_db_log stacked_line)
              = Some ''Dangerous operation detected (DROP/TRUNCATE)''"
    by code_simp
  from signature_category_priority [where self = ?S and line = admin_curl_line and p = ?pw
      and now = ?now] m pw fw
  have w: "\<exists>self' a. analyze_web_log ?now ?S admin_curl_line = (self', Some a) \<and>
      attack_type a = ''Suspicious tool: curl/7.68.0'' \<and> severity a = ''HIGH''"
    by blast
  from signature_category_priority [where self = ?S and line = phishing_download_line and p = ?pe
      and now = ?now] m pe fe
  have e: "\<exists>self' a. analyze_email_log ?now ?S phishing_download_line = (self', Some a) \<and>
      attack_type a = ''Spam/Malware email pattern detected'' \<and> severity a = ''MEDIUM''"
    by blast
  from signature_category_priority [where self = ?S and line = stacked_line and now = ?now] m q fd
  have d: "\<exists>self' a. analyze_db_log ?now ?S stacked_line = (self', Some a) \<and>
      attack_type a = ''Dangerous operation detected (DROP/TRUNCATE)'' \<and>
      severity a = ''CRITICAL''"
    by blast
  from w e d show ?thesis by blast
qed

text \<open>
  Claim C3: the ids assigned by one store are strictly increasing, also after the store has
  evicted old entries at capacity. The code assigns \<open>len(self.alerts) + 1\<close>, which stops
  growing once the list is full: on a new manager (capacity 100) the 101st and the 102nd
  alert created both get the id 101.
\<close>

theorem alert_ids_repeat_at_capacity:
  "alert_id (snd (create_alerts (init None None None) (replicate 102 sample_call)) ! 100) = 101 \<and>
   alert_id (snd (create_alerts (init None None None) (replicate 102 sample_call)) ! 101) = 101"
  using create_alerts_ids [of "init None None None" 100 "replicate 102 sample_call"]
        create_alerts_ids [of "init None None None" 101 "replicate 102 sample_call"]
  by (simp add: init_def)

text \<open>
  Claim C4: after \<open>capacity + k\<close> insertions into an empty store, the store holds exactly
  \<open>capacity\<close> alerts, the last \<open>capacity\<close> ones created, in the order of creation. With
  \<open>k = 1\<close> (as for 101 insertions at capacity 100) the second alert ever created is in the
  store and every other stored alert has a larger id.
\<close>

theorem bounded_buffer_law:
  assumes "alerts self = []" and "length calls = max_alerts self + k"
  shows "length (alerts (fst (create_alerts self calls))) = max_alerts self \<and>
         alerts (fst (create_alerts self calls)) = drop k (snd (create_alerts self calls)) \<and>
         (k = 1 \<and> 0 < max_alerts self \<longrightarrow>
            snd (create_alerts self calls) ! 1 \<in> set (alerts (fst (create_alerts self calls))) \<and>
            (\<forall>a \<in> set (alerts (fst (create_alerts self calls))).
               a = snd (create_alerts self calls) ! 1 \<or>
               alert_id (snd (create_alerts self calls) ! 1) < alert_id a))"
proof -
  let ?S = "alerts (fst (create_alerts self calls))"
  let ?C = "snd (create_alerts self calls)"
  have le: "length (alerts self) \<le> max_alerts self" using assms(1) by simp
  have lenC: "length ?C = max_alerts self + k" using assms(2) by (simp add: create_alerts_length)
  have store: "?S = drop k ?C"
    using create_alerts_store[OF le, of calls] assms by simp
  have len: "length ?S = max_alerts self" using store lenC by simp
  have ids: "alert_id (?C ! i) = Suc (min i (max_alerts self))" if "i < length calls" for i
    using create_alerts_ids[OF le that] assms(1) by simp
  have third: "?C ! 1 \<in> set ?S \<and> (\<forall>a \<in> set ?S. a = ?C ! 1 \<or> alert_id (?C ! 1) < alert_id a)"
    if k: "k = 1" and pos: "0 < max_alerts self"
  proof
    have "?S ! 0 = ?C ! 1" using store k lenC by simp
    moreover have "0 < length ?S" using len pos by simp
    ultimately show "?C ! 1 \<in> set ?S" by (metis nth_mem)
  next
    show "\<forall>a \<in> set ?S. a = ?C ! 1 \<or> alert_id (?C ! 1) < alert_id a"
    proof
      fix a assume "a \<in> set ?S"
      then obtain j where j: "j < length ?S" "a = ?S ! j" by (auto simp: in_set_conv_nth)
      then have a: "a = ?C ! (Suc j)" using store k lenC by simp
      have "Suc j < length calls" using j(1) len assms(2) k by simp
      then have ida: "alert_id a = Suc (Suc j)" using ids[of "Suc j"] a j(1) len by simp
      have "1 < length calls" using assms(2) k pos by simp
      then have id1: "alert_id (?C ! 1) = 2" using ids[of 1] pos by simp
      show "a = ?C ! 1 \<or> alert_id (?C ! 1) < alert_id a"
        using a ida id1 by (cases j) simp_all
    qed
  qed
  show ?thesis using len store third by blast
qed

theorem bounded_buffer_law_witness:
  "length (alerts (fst (create_alerts (init None None None) (replicate 101 sample_call)))) = 100 \<and>
   alerts (fst (create_alerts (init None None None) (replicate 101 sample_call))) =
     drop 1 (snd (create_alerts (init None None None) (replicate 101 sample_call))) \<and>
   snd (create_alerts (init None None None) (replicate 101 sample_call)) ! 1
     \<in> set (alerts (fst (create_alerts (init None None None) (replicate 101 sample_call)))) \<and>
   list_all
     (\<lambda>a. a = snd (create_alerts (init None None None) (replicate 101 sample_call)) ! 1 \<or>
          alert_id (snd (create_alerts (init None None None) (replicate 101 sample_call)) ! 1)
            < alert_id a)
     (alerts (fst (create_alerts (init None None None) (replicate 101 sample_call))))"
proof -
  have a: "alerts (init None None None) = []"
    by (simp add: init_def)
  have b: "length (replicate 101 sample_call) = max_alerts (init None None None) + 1"
    by (simp add: init_def)
  have m: "max_alerts (init None None None) = 100"
    by (simp add: init_def)
  have c: "(1::nat) = 1 \<and> (0::nat) < 100"
    by simp
  from bounded_buffer_law [OF a b, unfolded m] c show ?thesis
    unfolding list_all_iff by blast
qed

text \<open>
  Claim C5: both the single-line and the bulk entry point reject an unsupported domain tag.
  On the tag \<open>ftp\<close> the single-line handler answers 400 with \<open>Unknown log type: ftp\<close>, and
  the bulk handler answers 200 with one line analysed and no alert.
\<close>

theorem bulk_ignores_unknown_type:
  "snd (api_analyze_log ''2024-11-27T10:30:04'' new_globals
          \<lparr>body_log_line = Some ''DROP TABLE users'', body_type = Some ''ftp''\<rparr>)
     = Error_response 400 ''Unknown log type: ftp'' \<and>
   snd (api_bulk_analyze_logs (\<lambda>i. ''2024-11-27T10:30:04'') new_globals
          \<lparr>body_logs = Some [''DROP TABLE users''], bulk_type = Some ''ftp''\<rparr>)
     = Bulk_response 1 0 [] \<and>
   status_code (Bulk_response 1 0 []) = 200"
  by code_simp





text \<open>
  Claim C7, as stated: every db line whose query contains \<open>DROP TABLE\<close> or \<open>TRUNCATE\<close>
  yields a CRITICAL alert. It fails when the db classifier is missing: \<open>analyze_db_log\<close>
  then returns \<open>None\<close> on \<open>DROP TABLE users\<close>.
\<close>

theorem destructive_query_without_model:
  "str_in ''drop table'' (lower (parse_db_log ''DROP TABLE users'')) \<and>
   snd (analyze_db_log ''2024-11-27T10:30:04'' (init None None None) ''DROP TABLE users'') = None"
  by code_simp

text \<open>
  Claim C7, amended: when the db classifier is loaded, every line whose extracted query
  contains \<open>drop table\<close> or \<open>truncate\<close> in any letter case yields an alert of severity
  CRITICAL with confidence 0.95, which is at least 0.9.
\<close>

theorem destructive_query_is_critical:
  assumes "db_model self = Some m"
    and "str_in ''drop table'' (lower (parse_db_log line)) \<or>
         str_in ''truncate'' (lower (parse_db_log line))"
  shows "\<exists>self' a. analyze_db_log now self line = (self', Some a) \<and>
           severity a = ''CRITICAL'' \<and> confidence a = 95 / 100 \<and> 9 / 10 \<le> confidence a"
proof -
  let ?q = "parse_db_log line"
  have "str_in ''drop'' (lower ?q) \<or> str_in ''truncate'' (lower ?q)"
    using assms(2) str_in_append [of "''drop''" "'' table''" "lower ?q"] by auto
  then have sig: "db_signature ?q = (True, ''Dangerous operation detected (DROP/TRUNCATE)'')"
    by (rule db_signature_dangerous)
  have "lower ?q \<noteq> []"
    using assms(2) str_in_nonempty by fastforce
  then have ne: "?q \<noteq> []"
    by (auto simp: lower_def)
  show ?thesis
    using assms(1) sig ne
    by (simp add: analyze_db_log_def Let_def create_alert_def round4_signature)
qed

theorem destructive_query_is_critical_witness:
  "\<exists>self' a. analyze_db_log ''2024-11-27T10:30:04'' (init None (Some bare_model) None)
        general_log_line = (self', Some a) \<and>
      severity a = ''CRITICAL'' \<and> confidence a = 95 / 100 \<and> 9 / 10 \<le> confidence a"
proof -
  have m: "db_model (init None (Some bare_model) None) = Some bare_model"
    by (simp add: init_def)
  have q: "str_in ''drop table'' (lower (parse_db_log general_log_line)) \<or>
           str_in ''truncate'' (lower (parse_db_log general_log_line))"
    by code_simp
  from destructive_query_is_critical [OF m q] show ?thesis .
qed


text \<open>
  Claim C8: when no signature fires on a parsed line and the classifier has neither a
  decision function nor class probabilities (the first probe raises \<open>AttributeError\<close> or
  \<open>TypeError\<close>, the second raises), a detection by the classifier (label \<open>-1\<close>) is an alert
  with confidence exactly 0.5, in each of the three domains.
\<close>

theorem fallback_confidence_is_half:
  assumes "\<And>f. decision_function m f = Raises AttributeError \<or>
               decision_function m f = Raises TypeError"
    and "\<And>f. \<exists>e. predict_proba m f = Raises e"
  shows "(web_model self = Some m \<and> parse_log_line line = Some p \<and> \<not> fst (web_signature p) \<and>
          predict m (extract_features p) = Returns (- 1) \<longrightarrow>
            (\<exists>self' a. analyze_web_log now self line = (self', Some a) \<and> confidence a = 1 / 2)) \<and>
         (db_model self = Some m \<and> parse_db_log line \<noteq> [] \<and>
          \<not> fst (db_signature (parse_db_log line)) \<and>
          predict m (extract_sql_features (parse_db_log line)) = Returns (- 1) \<longrightarrow>
            (\<exists>self' a. analyze_db_log now self line = (self', Some a) \<and> confidence a = 1 / 2)) \<and>
         (email_model self = Some m \<and> parse_log_line line = Some p \<and> \<not> fst (email_signature p) \<and>
          predict m (extract_features p) = Returns (- 1) \<longrightarrow>
            (\<exists>self' a. analyze_email_log now self line = (self', Some a) \<and> confidence a = 1 / 2))"
proof (intro conjI impI; elim conjE)
  assume "web_model self = Some m" "parse_log_line line = Some p" "\<not> fst (web_signature p)"
    "predict m (extract_features p) = Returns (- 1)"
  then show "\<exists>self' a. analyze_web_log now self line = (self', Some a) \<and> confidence a = 1 / 2"
    using classify_fallback [OF assms(1) assms(2)]
    by (simp add: analyze_web_log_classify create_alert_confidence)
next
  assume "db_model self = Some m" "parse_db_log line \<noteq> []"
    "\<not> fst (db_signature (parse_db_log line))"
    "predict m (extract_sql_features (parse_db_log line)) = Returns (- 1)"
  then show "\<exists>self' a. analyze_db_log now self line = (self', Some a) \<and> confidence a = 1 / 2"
    using classify_fallback [OF assms(1) assms(2)]
    by (simp add: analyze_db_log_classify create_alert_confidence)
next
  assume "email_model self = Some m" "parse_log_line line = Some p" "\<not> fst (email_signature p)"
    "predict m (extract_features p) = Returns (- 1)"
  then show "\<exists>self' a. analyze_email_log now self line = (self', Some a) \<and> confidence a = 1 / 2"
    using classify_fallback [OF assms(1) assms(2)]
    by (simp add: analyze_email_log_classify create_alert_confidence)
qed

theorem fallback_confidence_is_half_witness:
  "(\<exists>self' a. analyze_web_log ''2024-11-27T10:30:04''
        (init (Some bare_model) (Some bare_model) (Some bare_model)) benign_line = (self', Some a) \<and>
      confidence a = 1 / 2) \<and>
   (\<exists>self' a. analyze_db_log ''2024-11-27T10:30:04''
        (init (Some bare_model) (Some bare_model) (Some bare_model)) select_line = (self', Some a) \<and>
      confidence a = 1 / 2) \<and>
   (\<exists>self' a. analyze_email_log ''2024-11-27T10:30:04''
        (init (Some bare_model) (Some bare_model) (Some bare_model)) benign_line = (self', Some a) \<and>
      confidence a = 1 / 2)"
proof -
  let ?S = "init (Some bare_model) (Some bare_model) (Some bare_model)"
  let ?p = "the (parse_log_line benign_line)"
  have d: "decision_function bare_model f = Raises AttributeError \<or>
           decision_function bare_model f = Raises TypeError" for f
    by (simp add: bare_model_def)
  have pp: "\<exists>e. predict_proba bare_model f = Raises e" for f
    by (simp add: bare_model_def)
  have pr: "predict bare_model f = Returns (- 1)" for f
    by (simp add: bare_model_def)
  have m: "web_model ?S = Some bare_model" "db_model ?S = Some bare_model"
    "email_model ?S = Some bare_model"
    by (simp_all add: init_def)
  have "parse_log_line benign_line \<noteq> None"
    by code_simp
  then have p: "parse_log_line benign_line = Some ?p"
    by simp
  have sw: "\<not> fst (web_signature ?p)"
    by code_simp
  have se: "\<not> fst (email_signature ?p)"
    by code_simp
  have q: "parse_db_log select_line \<noteq> []"
    by code_simp
  have sd: "\<not> fst (db_signature (parse_db_log select_line))"
    by code_simp
  from fallback_confidence_is_half [OF d pp, of ?S benign_line ?p "''2024-11-27T10:30:04''"]
    m p sw se pr
  have we: "(\<exists>self' a. analyze_web_log ''2024-11-27T10:30:04'' ?S benign_line = (self', Some a) \<and>
               confidence a = 1 / 2) \<and>
            (\<exists>self' a. analyze_email_log ''2024-11-27T10:30:04'' ?S benign_line = (self', Some a) \<and>
               confidence a = 1 / 2)"
    by blast
  from fallback_confidence_is_half [OF d pp, of ?S select_line _ "''2024-11-27T10:30:04''"]
    m q sd pr
  have db: "\<exists>self' a. analyze_db_log ''2024-11-27T10:30:04'' ?S select_line = (self', Some a) \<and>
               confidence a = 1 / 2"
    by blast
  from we db show ?thesis by blast
qed

text \<open>
  Claim C9: a web or email line that \<open>parse_log_line\<close> rejects makes the analyser return
  \<open>None\<close> and leaves the manager as it was: no alert is stored and nothing is printed, so
  neither the feature extractor nor the handler of a raised exception has run.
\<close>

theorem unparsed_line_is_skipped:
  "parse_log_line line = None \<Longrightarrow>
   analyze_web_log now self line = (self, None) \<and> analyze_email_log now self line = (self, None)"
  by (simp add: analyze_web_log_def analyze_email_log_def split: option.splits)

theorem unparsed_line_is_skipped_witness:
  "parse_log_line ''not an access log line'' = None \<and>
   analyze_web_log ''2024-11-27T10:30:04'' (init (Some bare_model) None (Some bare_model))
     ''not an access log line'' = (init (Some bare_model) None (Some bare_model), None) \<and>
   analyze_email_log ''2024-11-27T10:30:04'' (init (Some bare_model) None (Some bare_model))
     ''not an access log line'' = (init (Some bare_model) None (Some bare_model), None) \<and>
   snd (analyze_web_log ''2024-11-27T10:30:04'' (init (Some bare_model) None (Some bare_model))
     benign_line) \<noteq> None \<and>
   snd (analyze_email_log ''2024-11-27T10:30:04'' (init (Some bare_model) None (Some bare_model))
     benign_line) \<noteq> None"
proof -
  have p: "parse_log_line ''not an access log line'' = None"
    by code_simp
  have w: "snd (analyze_web_log ''2024-11-27T10:30:04''
      (init (Some bare_model) None (Some bare_model)) benign_line) \<noteq> None"
    by code_simp
  have e: "snd (analyze_email_log ''2024-11-27T10:30:04''
      (init (Some bare_model) None (Some bare_model)) benign_line) \<noteq> None"
    by code_simp
  from unparsed_line_is_skipped [OF p] p w e show ?thesis
    by blast
qed

text \<open>
  Claim C10: \<open>get_alerts\<close> with limit 0 returns every stored alert that passes the filter;
  with a positive limit it returns the last \<open>limit\<close> of them, so at most \<open>limit\<close>; and the
  HTTP handler passes the caller's \<open>limit\<close> parameter to it unchanged.
\<close>

theorem get_alerts_limit:
  "get_alerts self t s 0 = filter (matches t s) (alerts self) \<and>
   (0 < limit \<longrightarrow>
      get_alerts self t s limit =
        drop (length (filter (matches t s) (alerts self)) - nat limit)
          (filter (matches t s) (alerts self)) \<and>
      length (get_alerts self t s limit) \<le> nat limit) \<and>
   (ids_manager g = Some self \<and> arg_limit args = Some limit \<longrightarrow>
      api_get_alerts g args =
        Alerts_response (get_alerts self (arg_type args) (arg_severity args) limit)
          (length (get_alerts self (arg_type args) (arg_severity args) limit))
          (models_loaded self))"
  by (auto simp: get_alerts_filter slice_from_zero slice_from_neg api_get_alerts_def Let_def)


theorem get_alerts_limit_witness:
  "get_alerts (fst (create_alerts (init None None None) (replicate 3 sample_call)))
     None (Some ''CRITICAL'') 0 =
     filter (matches None (Some ''CRITICAL''))
       (alerts (fst (create_alerts (init None None None) (replicate 3 sample_call)))) \<and>
   map alert_id (get_alerts (fst (create_alerts (init None None None) (replicate 3 sample_call)))
     None (Some ''CRITICAL'') 0) = [1, 2, 3] \<and>
   length (get_alerts (fst (create_alerts (init None None None) (replicate 3 sample_call)))
     None (Some ''CRITICAL'') 2) \<le> 2 \<and>
   map alert_id (get_alerts (fst (create_alerts (init None None None) (replicate 3 sample_call)))
     None (Some ''CRITICAL'') 2) = [2, 3] \<and>
   api_get_alerts
     \<lparr>ids_manager = Some (fst (create_alerts (init None None None) (replicate 3 sample_call))),
      deployment_logs = []\<rparr>
     \<lparr>arg_type = None, arg_severity = Some ''CRITICAL'', arg_limit = Some 0\<rparr> =
     Alerts_response
       (get_alerts (fst (create_alerts (init None None None) (replicate 3 sample_call)))
          None (Some ''CRITICAL'') 0)
       3 (False, False, False)"
proof -
  let ?S = "fst (create_alerts (init None None None) (replicate 3 sample_call))"
  let ?g = "\<lparr>ids_manager = Some ?S, deployment_logs = []\<rparr>"
  let ?args = "\<lparr>arg_type = None, arg_severity = Some ''CRITICAL'', arg_limit = Some 0\<rparr>"
  have pos: "(0::int) < 2"
    by simp
  have ids0: "map alert_id (get_alerts ?S None (Some ''CRITICAL'') 0) = [1, 2, 3]"
    by code_simp
  have ids2: "map alert_id (get_alerts ?S None (Some ''CRITICAL'') 2) = [2, 3]"
    by code_simp
  have loaded: "models_loaded ?S = (False, False, False)"
    by code_simp
  have "length (get_alerts ?S None (Some ''CRITICAL'') 2) \<le> nat 2"
    using get_alerts_limit [where self = ?S and t = None and s = "Some ''CRITICAL''"
        and limit = 2] pos by blast
  then have le: "length (get_alerts ?S None (Some ''CRITICAL'') 2) \<le> 2"
    by simp
  have all: "get_alerts ?S None (Some ''CRITICAL'') 0 =
      filter (matches None (Some ''CRITICAL'')) (alerts ?S)"
    using get_alerts_limit [where self = ?S and t = None and s = "Some ''CRITICAL''"] by blast
  have "length (get_alerts ?S None (Some ''CRITICAL'') 0) = 3"
    using arg_cong [OF ids0, of length] by simp
  moreover have "api_get_alerts ?g ?args =
      Alerts_response (get_alerts ?S (arg_type ?args) (arg_severity ?args) 0)
        (length (get_alerts ?S (arg_type ?args) (arg_severity ?args) 0)) (models_loaded ?S)"
    using get_alerts_limit [where self = ?S and g = ?g and args = ?args and limit = 0] by simp
  ultimately have api: "api_get_alerts ?g ?args =
      Alerts_response (get_alerts ?S None (Some ''CRITICAL'') 0) 3 (False, False, False)"
    using loaded by simp
  from all ids0 le ids2 api show ?thesis
    by blast
qed


end
